theory Spec2Isabelle
  imports Main "HOL-Library.AList"
begin

section \<open>JavaScript values\<close>

text \<open>
  The values a component stores in its state. Arrays and plain objects live on a heap and
  are known by their address (\<open>Ref\<close>), DOM nodes by their identity (\<open>NodeRef\<close>), so that
  the identity comparison of the source (\<open>!==\<close>) can be told from equality of contents.
  Numbers are integers, with \<open>NaN\<close> kept apart because it is not identical to itself.
\<close>

datatype jsval =
    Undefined
  | Null
  | JBool bool
  | JNum int
  | JNaN
  | JStr string
  | Ref nat
  | NodeRef nat

text \<open>The truthiness test behind \<open>if (x)\<close>, \<open>x && y\<close> and \<open>x || y\<close>.\<close>

fun truthy :: "jsval \<Rightarrow> bool" where
  "truthy Undefined = False"
| "truthy Null = False"
| "truthy (JBool b) = b"
| "truthy (JNum i) = (i \<noteq> 0)"
| "truthy JNaN = False"
| "truthy (JStr s) = (s \<noteq> [])"
| "truthy (Ref a) = True"
| "truthy (NodeRef n) = True"

text \<open>\<open>a === b\<close>: identity of references, equality of primitives, never true of \<open>NaN\<close>.\<close>

definition strictEquals :: "jsval \<Rightarrow> jsval \<Rightarrow> bool" where
  "strictEquals a b = (a = b \<and> a \<noteq> JNaN)"

text \<open>\<open>typeof v === "object"\<close> holds of \<open>null\<close>, arrays, plain objects and DOM nodes.\<close>

fun typeofObject :: "jsval \<Rightarrow> bool" where
  "typeofObject Null = True"
| "typeofObject (Ref a) = True"
| "typeofObject (NodeRef n) = True"
| "typeofObject v = False"

fun digitsOf :: "nat \<Rightarrow> string" where
  "digitsOf n =
     (if n < 10 then [''0123456789'' ! n]
      else digitsOf (n div 10) @ [''0123456789'' ! (n mod 10)])"

text \<open>
  The string a value becomes when it is stored as an attribute (\<open>setAttribute\<close> applies
  \<open>String(v)\<close>); object values never reach it.
\<close>

fun toAttrString :: "jsval \<Rightarrow> string" where
  "toAttrString Undefined = ''undefined''"
| "toAttrString Null = ''null''"
| "toAttrString (JBool b) = (if b then ''true'' else ''false'')"
| "toAttrString (JNum i) = (if i < 0 then CHR ''-'' # digitsOf (nat (- i)) else digitsOf (nat i))"
| "toAttrString JNaN = ''NaN''"
| "toAttrString (JStr s) = s"
| "toAttrString (Ref a) = ''[object Object]''"
| "toAttrString (NodeRef n) = ''[object HTMLElement]''"

section \<open>The heap of arrays and objects\<close>

datatype hobj = Arr "jsval list" | Obj "(string \<times> jsval) list"

type_synonym heap = "hobj list"

text \<open>A literal \<open>[]\<close>, \<open>{}\<close> or \<open>Object.assign({}, o)\<close> allocates: the new address is fresh.\<close>

definition alloc :: "hobj \<Rightarrow> heap \<Rightarrow> nat \<times> heap" where
  "alloc obj h = (length h, h @ [obj])"

text \<open>\<open>o[k]\<close>: \<open>undefined\<close> when the key is absent.\<close>

definition getProp :: "heap \<Rightarrow> nat \<Rightarrow> string \<Rightarrow> jsval" where
  "getProp h a k =
     (if a < length h
      then (case h ! a of
              Obj kvs \<Rightarrow> (case map_of kvs k of Some v \<Rightarrow> v | None \<Rightarrow> Undefined)
            | Arr xs \<Rightarrow> Undefined)
      else Undefined)"

text \<open>\<open>o[k] = v\<close> on a plain object: the key keeps its place, a new key goes last.\<close>

definition setProp :: "heap \<Rightarrow> nat \<Rightarrow> string \<Rightarrow> jsval \<Rightarrow> heap" where
  "setProp h a k v =
     (if a < length h
      then (case h ! a of
              Obj kvs \<Rightarrow> h[a := Obj (AList.update k v kvs)]
            | Arr xs \<Rightarrow> h)
      else h)"

text \<open>\<open>Array.isArray(v) ? v : [v]\<close>, read through the heap.\<close>

definition asArray :: "heap \<Rightarrow> jsval \<Rightarrow> jsval list" where
  "asArray h v =
     (case v of
        Ref a \<Rightarrow> (if a < length h then (case h ! a of Arr xs \<Rightarrow> xs | Obj kvs \<Rightarrow> [v]) else [v])
      | _ \<Rightarrow> [v])"

section \<open>Metadata of a component class\<close>

text \<open>
  The \<open>type\<close> key of a property or slot: one of the constructors the source compares with
  (\<open>Boolean\<close>, \<open>String\<close>, \<open>Object\<close>, \<open>Integer\<close>, \<open>Node\<close>, \<open>HTMLElement\<close>), another class, or a string
  literal (the source also compares the key with the string \<open>"boolean"\<close>).
\<close>

datatype ptype =
    TyBoolean
  | TyString
  | TyObject
  | TyInteger
  | TyNode
  | TyHTMLElement
  | TyClass string
  | TyName string

text \<open>\<open>defaultValue\<close> is \<open>None\<close> when the key is absent (\<open>"defaultValue" in propData\<close> is false).\<close>

record prop_data =
  propType :: ptype
  multiple :: bool
  defaultValue :: "jsval option"

text \<open>
  \<open>listenFor\<close> of a slot: absent (or falsy), an array of property names, or another truthy
  value whose \<open>props\<close> and \<open>exclude\<close> keys count only when they are arrays.
\<close>

datatype listen_for =
    NoListenFor
  | ListenArray "string list"
  | ListenObject "string list option" "string list option"

record slot_data =
  slotType :: ptype
  propertyName :: "string option"
  individualSlots :: bool
  listenFor :: listen_for

record metadata =
  tag :: string
  properties :: "(string \<times> prop_data) list"
  slots :: "(string \<times> slot_data) list"

text \<open>\<open>slotData.propertyName || slotName\<close>.\<close>

definition slotPropertyName :: "string \<Rightarrow> slot_data \<Rightarrow> string" where
  "slotPropertyName slotName slotData =
     (case propertyName slotData of
        None \<Rightarrow> slotName
      | Some p \<Rightarrow> (if p = [] then slotName else p))"

section \<open>Errors and warnings\<close>

datatype error =
    InvalidPropertyName string
  | BooleanDefaultValue string
  | CannotRedefineProperty string
  | CannotSetSlots
  | ValidationError
  | TypeError

datatype warning =
    SkippingDefinition string
  | UnknownSlotName string
  | BooleanDefaultIgnored

section \<open>Nodes, classes and the world\<close>

datatype node_kind = TextNode | PlainElement | HTMLElement

text \<open>
  A DOM node with the fields of a component instance. \<open>shadowRoot\<close> is the number of
  children of the shadow root (\<open>None\<close>: no shadow root). \<open>propertyChangeListener\<close> tells
  whether \<open>_invalidateParentOnPropertyUpdate\<close> is registered on the node for
  \<open>_propertyChange\<close>: the method is one function object, so registering it again changes
  nothing and removing it once removes it.
\<close>

record node =
  kind :: node_kind
  isUI5Element :: bool
  localName :: string
  attributes :: "(string \<times> string) list"
  parentNode :: "nat option"
  childNodes :: "nat list"
  klass :: nat
  stateRef :: nat
  invalidated :: bool
  suppressInvalidation :: bool
  shadowRoot :: "nat option"
  monitoredChildProps :: "(string \<times> string list \<times> string list) list"
  propertyChangeListener :: bool
  individualSlot :: "string option"

text \<open>
  A component class: its merged metadata, the cached default state (\<open>_defaultState\<close>, an
  address) and the accessors defined on its prototype, in the order of definition.
\<close>

record klassrec =
  meta :: metadata
  defaultStateRef :: "nat option"
  accessors :: "string list"

text \<open>Who registered a tag with the browser: a class of this module, or someone else.\<close>

datatype ctor = LocalClass nat | ForeignClass

text \<open>
  Everything the module can change. \<open>renderQueue\<close> is the scheduler's queue of pending
  renders, \<open>eventLog\<close> the \<open>_propertyChange\<close> events dispatched (target, name, new value),
  \<open>renderLog\<close> the calls of the external renderer (instance, state rendered), \<open>now\<close> the
  clock in milliseconds, \<open>elementTimeouts\<close> the time at which each timeout promise
  resolves, \<open>nodeCount\<close> the number of nodes of the document.
\<close>

record world =
  heap :: heap
  nodes :: "nat \<Rightarrow> node"
  nodeCount :: nat
  classes :: "nat \<Rightarrow> klassrec"
  renderQueue :: "nat list"
  eventLog :: "(nat \<times> string \<times> jsval) list"
  renderLog :: "(nat \<times> (string \<times> jsval) list) list"
  warnings :: "warning list"
  DefinitionsSet :: "string list"
  customElements :: "(string \<times> ctor) list"
  elementTimeouts :: "(string \<times> nat) list"
  now :: nat

text \<open>
  The collaborators that are not part of the module: the validators of
  \<open>UI5ElementMetadata\<close>, \<open>isValidPropertyName\<close>, the attribute table, the case conversion,
  the time at which the definition of an element type becomes available (\<open>None\<close>:
  never), the lifecycle hooks a component class may define (\<open>None\<close>: not defined) and the
  number of children the external renderer leaves in a shadow root.
\<close>

record env =
  validatePropertyValue :: "jsval \<Rightarrow> prop_data \<Rightarrow> error + jsval"
  validateSlotValue :: "nat \<Rightarrow> slot_data \<Rightarrow> error + nat"
  isValidPropertyName :: "string \<Rightarrow> bool"
  hasAttribute :: "metadata \<Rightarrow> string \<Rightarrow> bool"
  camelToKebabCase :: "string \<Rightarrow> string"
  whenDefined :: "string \<Rightarrow> nat option"
  onBeforeRendering :: "(nat \<Rightarrow> world \<Rightarrow> world) option"
  onComponentStateFinalized :: "(nat \<Rightarrow> world \<Rightarrow> world) option"
  onAfterRendering :: "(nat \<Rightarrow> world \<Rightarrow> world) option"
  shadowChildren :: nat

text \<open>An outcome is the error thrown, if any, and the world as the call left it.\<close>

type_synonym outcome = "error option \<times> world"

section \<open>Class setup: accessors and \<open>define\<close>\<close>

text \<open>
  \<open>Object.defineProperty(proto, name, {get, set})\<close>: the property is not configurable, so
  defining it again with new accessor functions throws.
\<close>

definition defineProperty :: "string \<Rightarrow> string list \<Rightarrow> error + string list" where
  "defineProperty name proto =
     (if name \<in> set proto then Inl (CannotRedefineProperty name) else Inr (proto @ [name]))"

text \<open>The loop over the properties of \<open>_generateAccessors\<close>.\<close>

fun generatePropertyAccessors ::
  "env \<Rightarrow> (string \<times> prop_data) list \<Rightarrow> string list \<Rightarrow> error option \<times> string list" where
  "generatePropertyAccessors E [] proto = (None, proto)"
| "generatePropertyAccessors E ((prop, propData) # rest) proto =
     (if \<not> isValidPropertyName E prop then (Some (InvalidPropertyName prop), proto)
      else if propType propData = TyName ''boolean''
              \<and> (case defaultValue propData of None \<Rightarrow> False | Some v \<Rightarrow> truthy v)
      then (Some (BooleanDefaultValue prop), proto)
      else (case defineProperty prop proto of
              Inl e \<Rightarrow> (Some e, proto)
            | Inr proto' \<Rightarrow> generatePropertyAccessors E rest proto'))"

text \<open>The loop over the slots of \<open>_generateAccessors\<close>.\<close>

fun generateSlotAccessors ::
  "env \<Rightarrow> (string \<times> slot_data) list \<Rightarrow> string list \<Rightarrow> error option \<times> string list" where
  "generateSlotAccessors E [] proto = (None, proto)"
| "generateSlotAccessors E ((slotName, slotData) # rest) proto =
     (if \<not> isValidPropertyName E slotName then (Some (InvalidPropertyName slotName), proto)
      else (case defineProperty (slotPropertyName slotName slotData) proto of
              Inl e \<Rightarrow> (Some e, proto)
            | Inr proto' \<Rightarrow> generateSlotAccessors E rest proto'))"

definition generateAccessors :: "env \<Rightarrow> nat \<Rightarrow> world \<Rightarrow> outcome" where
  "generateAccessors E c w =
     (let k = classes w c;
          setProto = (\<lambda>proto. w\<lparr>classes := (classes w)(c := k\<lparr>accessors := proto\<rparr>)\<rparr>)
      in case generatePropertyAccessors E (properties (meta k)) (accessors k) of
           (Some e, proto) \<Rightarrow> (Some e, setProto proto)
         | (None, proto) \<Rightarrow>
             (case generateSlotAccessors E (slots (meta k)) proto of
                (err, proto') \<Rightarrow> (err, setProto proto')))"

text \<open>
  The static \<open>define\<close> (here \<open>defineElement\<close>), after \<open>boot\<close> and the optional \<open>onDefine\<close> hook (both outside the module).
  \<open>customElements.get(tag)\<close> is truthy when the tag is registered.
\<close>

definition defineElement :: "env \<Rightarrow> nat \<Rightarrow> world \<Rightarrow> outcome" where
  "defineElement E c w =
     (let t = tag (meta (classes w c));
          definedLocally = (t \<in> set (DefinitionsSet w));
          definedGlobally = (map_of (customElements w) t \<noteq> None)
      in if definedGlobally \<and> \<not> definedLocally
         then (None, w\<lparr>warnings := warnings w @ [SkippingDefinition t]\<rparr>)
         else if \<not> definedGlobally
         then (case generateAccessors E c w of
                 (Some e, w1) \<Rightarrow> (Some e, w1)
               | (None, w1) \<Rightarrow>
                   (None, w1\<lparr>DefinitionsSet := List.insert t (DefinitionsSet w1),
                              customElements := AList.update t (LocalClass c) (customElements w1)\<rparr>))
         else (None, w))"

section \<open>Invalidation\<close>

text \<open>
  \<open>getDomRef\<close>: nothing without a shadow root or when the shadow root is empty; otherwise
  the only child, or the second one when there are several.
\<close>

definition getDomRef :: "node \<Rightarrow> nat option" where
  "getDomRef nd =
     (case shadowRoot nd of
        None \<Rightarrow> None
      | Some len \<Rightarrow> (if len = 0 then None else if len = 1 then Some 0 else Some 1))"

text \<open>
  Modelled from the spec: \<open>RenderScheduler.renderDeferred\<close> is not among the sources. The
  spec says that an invalidation "enqueues a deferred render task" which "runs
  asynchronously"; the queue of pending render tasks is \<open>renderQueue\<close>.
\<close>

definition renderDeferred :: "nat \<Rightarrow> world \<Rightarrow> world" where
  "renderDeferred n w = w\<lparr>renderQueue := renderQueue w @ [n]\<rparr>"

text \<open>\<open>_invalidate\<close>; its arguments are not read by the source.\<close>

definition invalidate :: "nat \<Rightarrow> world \<Rightarrow> world" where
  "invalidate n w =
     (let nd = nodes w n
      in if invalidated nd then w
         else if getDomRef nd \<noteq> None \<and> \<not> suppressInvalidation nd
         then renderDeferred n (w\<lparr>nodes := (nodes w)(n := nd\<lparr>invalidated := True\<rparr>)\<rparr>)
         else w)"

section \<open>Slot names\<close>

definition isDigit :: "char \<Rightarrow> bool" where
  "isDigit c = (c \<in> set ''0123456789'')"

definition lineTerminator :: "char \<Rightarrow> bool" where
  "lineTerminator c = (c = CHR 0x0A \<or> c = CHR 0x0D)"

text \<open>
  \<open>slot.match(/^(.+?)-\d+$/)\<close>, giving the first group. The lazy group takes the shortest
  non-empty prefix without a line terminator after which the rest of the string is a
  hyphen and one digit or more.
\<close>

definition slotNameMatch :: "string \<Rightarrow> string option" where
  "slotNameMatch s =
     map_option (\<lambda>i. take i s)
       (find (\<lambda>i. list_all (\<lambda>c. \<not> lineTerminator c) (take i s)
                 \<and> (case drop i s of
                        [] \<Rightarrow> False
                      | c # ds \<Rightarrow> c = CHR ''-'' \<and> ds \<noteq> [] \<and> list_all isDigit ds))
             [1..<length s])"

text \<open>The static \<open>_getSlotName\<close>.\<close>

definition getSlotName :: "node \<Rightarrow> string" where
  "getSlotName child =
     (if kind child \<noteq> HTMLElement then ''default''
      else (case map_of (attributes child) ''slot'' of
              None \<Rightarrow> ''default''
            | Some slot \<Rightarrow>
                (if slot = [] then ''default''
                 else (case slotNameMatch slot of Some m \<Rightarrow> m | None \<Rightarrow> slot))))"

section \<open>Propagation of a child's property changes\<close>

text \<open>\<open>_attachChildPropertyUpdated\<close>: \<open>this\<close> is the parent.\<close>

definition attachChildPropertyUpdated :: "nat \<Rightarrow> nat \<Rightarrow> slot_data \<Rightarrow> world \<Rightarrow> world" where
  "attachChildPropertyUpdated this child propData w =
     (let childProperties = properties (meta (classes w (klass (nodes w child))));
          slotName = getSlotName (nodes w child)
      in case listenFor propData of
           NoListenFor \<Rightarrow> w
         | lf \<Rightarrow>
             (let observedProps =
                    (case lf of
                       ListenArray xs \<Rightarrow> xs
                     | ListenObject props exclude \<Rightarrow>
                         (case props of Some ps \<Rightarrow> ps | None \<Rightarrow> map fst childProperties)
                     | NoListenFor \<Rightarrow> []);
                  notObservedProps =
                    (case lf of
                       ListenObject props exclude \<Rightarrow> (case exclude of Some es \<Rightarrow> es | None \<Rightarrow> [])
                     | _ \<Rightarrow> []);
                  parent = nodes w this;
                  w1 = (if map_of (monitoredChildProps parent) slotName = None
                        then w\<lparr>nodes := (nodes w)(this := parent\<lparr>monitoredChildProps :=
                                 monitoredChildProps parent @ [(slotName, observedProps, notObservedProps)]\<rparr>)\<rparr>
                        else w)
              in w1\<lparr>nodes := (nodes w1)(child := (nodes w1 child)\<lparr>propertyChangeListener := True\<rparr>)\<rparr>))"

text \<open>\<open>_detachChildPropertyUpdated\<close>.\<close>

definition detachChildPropertyUpdated :: "nat \<Rightarrow> world \<Rightarrow> world" where
  "detachChildPropertyUpdated child w =
     w\<lparr>nodes := (nodes w)(child := (nodes w child)\<lparr>propertyChangeListener := False\<rparr>)\<rparr>"

text \<open>
  \<open>_invalidateParentOnPropertyUpdate\<close>: the listener runs with \<open>this\<close> the node it is
  registered on; \<open>name\<close> is \<open>prop.detail.name\<close>. A parent that is not a component has no
  \<open>_getSlotName\<close>, and the call throws.
\<close>

definition invalidateParentOnPropertyUpdate :: "nat \<Rightarrow> string \<Rightarrow> world \<Rightarrow> outcome" where
  "invalidateParentOnPropertyUpdate this name w =
     (case parentNode (nodes w this) of
        None \<Rightarrow> (None, w)
      | Some p \<Rightarrow>
          (if \<not> isUI5Element (nodes w p) then (Some TypeError, w)
           else (case map_of (monitoredChildProps (nodes w p)) (getSlotName (nodes w this)) of
                   None \<Rightarrow> (None, w)
                 | Some (observedProps, notObservedProps) \<Rightarrow>
                     (if name \<in> set observedProps \<and> name \<notin> set notObservedProps
                      then (None, invalidate p w)
                      else (None, w)))))"

text \<open>
  \<open>dispatchEvent\<close> of a \<open>_propertyChange\<close> event, which bubbles: the path is the target and
  its ancestors, fixed when the dispatch starts, and on each node of the path that carries
  the listener the listener runs. What a listener throws is reported by the browser and
  does not stop the dispatch. The number of nodes bounds the length of the path.
\<close>

fun propagationPath :: "nat \<Rightarrow> (nat \<Rightarrow> node) \<Rightarrow> nat \<Rightarrow> nat list" where
  "propagationPath 0 ns n = [n]"
| "propagationPath (Suc fuel) ns n =
     n # (case parentNode (ns n) of None \<Rightarrow> [] | Some p \<Rightarrow> propagationPath fuel ns p)"

definition runListener :: "string \<Rightarrow> nat \<Rightarrow> world \<Rightarrow> world" where
  "runListener name m w =
     (if propertyChangeListener (nodes w m)
      then snd (invalidateParentOnPropertyUpdate m name w)
      else w)"

definition dispatchEvent :: "nat \<Rightarrow> string \<Rightarrow> jsval \<Rightarrow> world \<Rightarrow> world" where
  "dispatchEvent target name newValue w =
     fold (runListener name) (propagationPath (nodeCount w) (nodes w) target)
       (w\<lparr>eventLog := eventLog w @ [(target, name, newValue)]\<rparr>)"

section \<open>Property accessors\<close>

text \<open>
  \<open>_updateAttribute\<close>. \<open>getAttribute\<close> gives \<open>null\<close> (here \<open>None\<close>) or a string, so
  \<open>attrValue !== newValue\<close> fails only for a string equal to the attribute. The
  attribute-changed callback the browser runs on \<open>setAttribute\<close> is outside the model.
\<close>

definition updateAttribute :: "env \<Rightarrow> nat \<Rightarrow> string \<Rightarrow> jsval \<Rightarrow> world \<Rightarrow> world" where
  "updateAttribute E n name newValue w =
     (let nd = nodes w n
      in if \<not> hasAttribute E (meta (classes w (klass nd))) name then w
         else if typeofObject newValue then w
         else (let attrName = camelToKebabCase E name;
                   attrValue = map_of (attributes nd) attrName;
                   setAttribute = (\<lambda>v. w\<lparr>nodes := (nodes w)(n := nd\<lparr>attributes :=
                                      AList.update attrName v (attributes nd)\<rparr>)\<rparr>);
                   removeAttribute = w\<lparr>nodes := (nodes w)(n := nd\<lparr>attributes :=
                                      AList.delete attrName (attributes nd)\<rparr>)\<rparr>
               in case newValue of
                    JBool b \<Rightarrow>
                      (if b \<and> attrValue = None then setAttribute []
                       else if \<not> b \<and> attrValue \<noteq> None then removeAttribute
                       else w)
                  | JStr s \<Rightarrow> (if attrValue \<noteq> Some s then setAttribute s else w)
                  | v \<Rightarrow> setAttribute (toAttrString v)))"

text \<open>\<open>_propertyChange\<close>.\<close>

definition propertyChange :: "env \<Rightarrow> nat \<Rightarrow> string \<Rightarrow> jsval \<Rightarrow> world \<Rightarrow> world" where
  "propertyChange E n name newValue w = dispatchEvent n name newValue (updateAttribute E n name newValue w)"

text \<open>
  The setter that \<open>_generateAccessors\<close> defines for a property. An assignment to a name
  that is not a declared property does not reach it.
\<close>

definition setProperty :: "env \<Rightarrow> nat \<Rightarrow> string \<Rightarrow> jsval \<Rightarrow> world \<Rightarrow> outcome" where
  "setProperty E n prop val w =
     (case map_of (properties (meta (classes w (klass (nodes w n))))) prop of
        None \<Rightarrow> (None, w)
      | Some propData \<Rightarrow>
          (case validatePropertyValue E val propData of
             Inl e \<Rightarrow> (Some e, w)
           | Inr v \<Rightarrow>
               (let oldState = getProp (heap w) (stateRef (nodes w n)) prop
                in if \<not> strictEquals oldState v
                   then (None,
                         propertyChange E n prop v
                           (invalidate n
                              (w\<lparr>heap := setProp (heap w) (stateRef (nodes w n)) prop v\<rparr>)))
                   else (None, w))))"

text \<open>The setter defined for a slot.\<close>

definition setSlot :: "nat \<Rightarrow> string \<Rightarrow> jsval \<Rightarrow> world \<Rightarrow> outcome" where
  "setSlot n slotProp val w = (Some CannotSetSlots, w)"


section \<open>Slot distribution\<close>

text \<open>The callback of the \<open>forEach\<close> of \<open>_clearSlot\<close>: \<open>child && child.isUI5Element\<close>.\<close>

definition clearSlotChild :: "jsval \<Rightarrow> world \<Rightarrow> world" where
  "clearSlotChild child w =
     (case child of
        NodeRef c \<Rightarrow> (if isUI5Element (nodes w c) then detachChildPropertyUpdated c w else w)
      | _ \<Rightarrow> w)"

text \<open>\<open>_clearSlot\<close>. The slot's data is read from the metadata; a missing slot throws.\<close>

definition clearSlot :: "nat \<Rightarrow> string \<Rightarrow> world \<Rightarrow> outcome" where
  "clearSlot this slotName w =
     (case map_of (slots (meta (classes w (klass (nodes w this))))) slotName of
        None \<Rightarrow> (Some TypeError, w)
      | Some slotData \<Rightarrow>
          (let propName = slotPropertyName slotName slotData;
               children = asArray (heap w) (getProp (heap w) (stateRef (nodes w this)) propName);
               w1 = fold clearSlotChild children w
           in case alloc (Arr []) (heap w1) of
                (a, h) \<Rightarrow>
                  (None,
                   invalidate this
                     (w1\<lparr>heap := setProp h (stateRef (nodes w1 this)) propName (Ref a)\<rparr>))))"

text \<open>
  A promise is the time at which it resolves, \<open>None\<close> when it never does. The code after
  an \<open>await\<close> resumes when the promise has resolved, and not before the present.
\<close>

definition race :: "nat option \<Rightarrow> nat option \<Rightarrow> nat option" where
  "race p q =
     (case p of
        None \<Rightarrow> q
      | Some a \<Rightarrow> (case q of None \<Rightarrow> Some a | Some b \<Rightarrow> Some (min a b)))"

definition awaitPromise :: "nat \<Rightarrow> nat option \<Rightarrow> nat option" where
  "awaitPromise present p = map_option (max present) p"

text \<open>\<open>Promise.all\<close>: resolved when the last promise is, never if one never is.\<close>

fun promiseAll :: "nat \<Rightarrow> nat option list \<Rightarrow> nat option" where
  "promiseAll t [] = Some t"
| "promiseAll t (None # ps) = None"
| "promiseAll t (Some u # ps) = promiseAll (max t u) ps"

text \<open>
  The local state of one pass of \<open>_updateSlots\<close>: the two maps of the source, the children
  that wait for the definition of their element type (index, child, slot name, slot data,
  time at which they resume), the first rejection and the world.
\<close>

record pass =
  autoIncrementMap :: "(string \<times> nat) list"
  slottedChildrenMap :: "(string \<times> (nat \<times> nat) list) list"
  suspended :: "(nat \<times> nat \<times> string \<times> slot_data \<times> nat option) list"
  rejected :: "error option"
  passWorld :: world

text \<open>
  The body of the per-child function from \<open>customElements.upgrade\<close> on, that is after the
  \<open>await\<close>. The upgrade itself is the browser's; a validator that throws rejects the
  child's promise.
\<close>

definition childAfter :: "env \<Rightarrow> nat \<Rightarrow> nat \<Rightarrow> nat \<Rightarrow> string \<Rightarrow> slot_data \<Rightarrow> pass \<Rightarrow> pass" where
  "childAfter E this child idx slotName slotData ps =
     (case validateSlotValue E child slotData of
        Inl e \<Rightarrow> ps\<lparr>rejected := (case rejected ps of None \<Rightarrow> Some e | Some e0 \<Rightarrow> Some e0)\<rparr>
      | Inr child' \<Rightarrow>
          (let w = passWorld ps;
               w1 = (if isUI5Element (nodes w child')
                     then attachChildPropertyUpdated this child' slotData w
                     else w);
               propName = slotPropertyName slotName slotData;
               m = slottedChildrenMap ps;
               m1 = (case map_of m propName of
                       Some cs \<Rightarrow> AList.update propName (cs @ [(child', idx)]) m
                     | None \<Rightarrow> m @ [(propName, [(child', idx)])])
           in ps\<lparr>slottedChildrenMap := m1, passWorld := w1\<rparr>))"

text \<open>
  The parts of the per-child function up to the \<open>await\<close>. The first gives a child of a
  slot with individual slots its number; the second is the test for an element of a custom
  type that is not defined yet; the third takes the timeout promise of the element type,
  which it makes when there is none, and suspends the child until the definition or the
  timeout comes, whichever is first.
\<close>

definition numberChild :: "string \<Rightarrow> slot_data \<Rightarrow> nat \<Rightarrow> pass \<Rightarrow> pass" where
  "numberChild slotName slotData child ps =
     (if individualSlots slotData
      then (let nextId = (case map_of (autoIncrementMap ps) slotName of
                            Some k \<Rightarrow> k | None \<Rightarrow> 0) + 1;
                w = passWorld ps
            in ps\<lparr>autoIncrementMap := AList.update slotName nextId (autoIncrementMap ps),
                  passWorld := w\<lparr>nodes := (nodes w)(child := (nodes w child)
                    \<lparr>individualSlot := Some (slotName @ ''-'' @ digitsOf nextId)\<rparr>)\<rparr>\<rparr>)
      else ps)"

definition awaitsDefinition :: "world \<Rightarrow> nat \<Rightarrow> bool" where
  "awaitsDefinition w child =
     (kind (nodes w child) = HTMLElement
      \<and> CHR ''-'' \<in> set (localName (nodes w child))
      \<and> map_of (customElements w) (localName (nodes w child)) = None)"

definition suspendChild :: "env \<Rightarrow> nat \<Rightarrow> nat \<Rightarrow> string \<Rightarrow> slot_data \<Rightarrow> pass \<Rightarrow> pass" where
  "suspendChild E child idx slotName slotData ps =
     (let w = passWorld ps;
          name = localName (nodes w child);
          whenDefinedPromise = whenDefined E name;
          known = map_of (elementTimeouts w) name;
          timeoutPromise = (case known of Some t \<Rightarrow> Some t | None \<Rightarrow> Some (now w + 1000));
          w2 = (case known of
                  Some t \<Rightarrow> w
                | None \<Rightarrow> w\<lparr>elementTimeouts := elementTimeouts w @ [(name, now w + 1000)]\<rparr>);
          resume = awaitPromise (now w) (race whenDefinedPromise timeoutPromise)
      in ps\<lparr>suspended := suspended ps @ [(idx, child, slotName, slotData, resume)],
            passWorld := w2\<rparr>)"

text \<open>
  The body of the per-child function up to the \<open>await\<close>; \<open>ci\<close> is the child and its
  index. A child that does not wait runs to its end at once.
\<close>

definition childBefore :: "env \<Rightarrow> nat \<Rightarrow> nat \<times> nat \<Rightarrow> pass \<Rightarrow> pass" where
  "childBefore E this ci ps =
     (let child = fst ci;
          idx = snd ci;
          w = passWorld ps;
          slotsMap = slots (meta (classes w (klass (nodes w this))));
          slotName = getSlotName (nodes w child)
      in case map_of slotsMap slotName of
           None \<Rightarrow> ps\<lparr>passWorld := w\<lparr>warnings := warnings w @ [UnknownSlotName slotName]\<rparr>\<rparr>
         | Some slotData \<Rightarrow>
             (let ps1 = numberChild slotName slotData child ps
              in if awaitsDefinition (passWorld ps1) child
                 then suspendChild E child idx slotName slotData ps1
                 else childAfter E this child idx slotName slotData ps1))"

text \<open>A waiting child resumes.\<close>

definition resumeChild :: "env \<Rightarrow> nat \<Rightarrow> nat \<Rightarrow> pass \<Rightarrow> pass" where
  "resumeChild E this idx ps =
     (case find (\<lambda>s. fst s = idx) (suspended ps) of
        None \<Rightarrow> ps
      | Some (i, child, slotName, slotData, t) \<Rightarrow> childAfter E this child idx slotName slotData ps)"

text \<open>
  The order in which the waiting children resume is the scheduler's: the children that
  \<open>order\<close> lists resume in that order, the others after them. Every permutation of the
  waiting children is the schedule of some \<open>order\<close>.
\<close>

definition schedule :: "nat list \<Rightarrow> nat list \<Rightarrow> nat list" where
  "schedule order waiting =
     filter (\<lambda>i. i \<in> set waiting) (remdups order) @ filter (\<lambda>i. i \<notin> set order) waiting"

text \<open>The last loop of \<open>_updateSlots\<close>: each group sorted by index and stored.\<close>

fun writeSlots :: "nat \<Rightarrow> (string \<times> (nat \<times> nat) list) list \<Rightarrow> world \<Rightarrow> world" where
  "writeSlots this [] w = w"
| "writeSlots this ((slot, children) # rest) w =
     (case alloc (Arr (map (\<lambda>c. NodeRef (fst c)) (sort_key snd children))) (heap w) of
        (a, h) \<Rightarrow>
          writeSlots this rest (w\<lparr>heap := setProp h (stateRef (nodes w this)) slot (Ref a)\<rparr>))"

definition domChildren :: "world \<Rightarrow> nat \<Rightarrow> nat list" where
  "domChildren w this =
     (let slotsMap = slots (meta (classes w (klass (nodes w this))));
          canSlotText = (case map_of slotsMap ''default'' of
                           Some d \<Rightarrow> slotType d = TyNode | None \<Rightarrow> False)
      in if canSlotText then childNodes (nodes w this)
         else filter (\<lambda>c. kind (nodes w c) \<noteq> TextNode) (childNodes (nodes w this)))"

text \<open>The pass up to the point where every child has run to its end.\<close>

definition distribute :: "env \<Rightarrow> nat list \<Rightarrow> nat \<Rightarrow> world \<Rightarrow> pass \<times> pass" where
  "distribute E order this w =
     (let slotsMap = slots (meta (classes w (klass (nodes w this))));
          children = domChildren w this;
          w1 = fold (\<lambda>slotName w'. snd (clearSlot this slotName w')) (map fst slotsMap) w;
          ps0 = \<lparr>autoIncrementMap = [], slottedChildrenMap = [], suspended = [],
                 rejected = None, passWorld = w1\<rparr>;
          ps1 = fold (childBefore E this) (zip children [0..<length children]) ps0;
          ps2 = fold (resumeChild E this) (schedule order (map fst (suspended ps1))) ps1
      in (ps1, ps2))"

text \<open>
  \<open>_updateSlots\<close>. The result is \<open>None\<close> when the pass never ends, that is when a child
  waits for ever. After a rejection nothing is stored and nothing is invalidated; the
  world returned then holds what the other children did.
\<close>

definition updateSlots :: "env \<Rightarrow> nat list \<Rightarrow> nat \<Rightarrow> world \<Rightarrow> outcome option" where
  "updateSlots E order this w =
     (case distribute E order this w of
        (ps1, ps2) \<Rightarrow>
          (case promiseAll (now w) (map (\<lambda>s. snd (snd (snd (snd s)))) (suspended ps1)) of
             None \<Rightarrow> None
           | Some t \<Rightarrow>
               (let w2 = (passWorld ps2)\<lparr>now := t\<rparr>
                in case rejected ps2 of
                     Some e \<Rightarrow> Some (Some e, w2)
                   | None \<Rightarrow>
                       Some (None, invalidate this (writeSlots this (slottedChildrenMap ps2) w2)))))"

section \<open>The state of an instance\<close>

text \<open>The two loops of \<open>_getDefaultState\<close>, filling the object at address \<open>d\<close>.\<close>

definition defaultPropertyStep ::
  "nat \<Rightarrow> string \<times> prop_data \<Rightarrow> heap \<times> warning list \<Rightarrow> heap \<times> warning list" where
  "defaultPropertyStep d p acc =
     (case acc of
        (h, ws) \<Rightarrow>
          (let propName = fst p;
               propData = snd p
           in if propType propData = TyBoolean
              then (setProp h d propName (JBool False),
                    (if (case defaultValue propData of None \<Rightarrow> False | Some v \<Rightarrow> v \<noteq> Undefined)
                     then ws @ [BooleanDefaultIgnored] else ws))
              else if multiple propData
              then (case alloc (Arr []) h of (a, h') \<Rightarrow> (setProp h' d propName (Ref a), ws))
              else if propType propData = TyObject
              then (case defaultValue propData of
                      Some v \<Rightarrow> (setProp h d propName v, ws)
                    | None \<Rightarrow> (case alloc (Obj []) h of (a, h') \<Rightarrow> (setProp h' d propName (Ref a), ws)))
              else if propType propData = TyString
              then (case defaultValue propData of
                      Some v \<Rightarrow> (setProp h d propName v, ws)
                    | None \<Rightarrow> (setProp h d propName (JStr []), ws))
              else (setProp h d propName
                      (case defaultValue propData of Some v \<Rightarrow> v | None \<Rightarrow> Undefined), ws)))"

definition defaultSlotStep ::
  "nat \<Rightarrow> string \<times> slot_data \<Rightarrow> heap \<times> warning list \<Rightarrow> heap \<times> warning list" where
  "defaultSlotStep d sl acc =
     (case acc of
        (h, ws) \<Rightarrow>
          (case alloc (Arr []) h of
             (a, h') \<Rightarrow> (setProp h' d (slotPropertyName (fst sl) (snd sl)) (Ref a), ws)))"

text \<open>The static \<open>_getDefaultState\<close>: the address of the snapshot, computed once a class.\<close>

definition getDefaultState :: "nat \<Rightarrow> world \<Rightarrow> nat \<times> world" where
  "getDefaultState c w =
     (case defaultStateRef (classes w c) of
        Some d \<Rightarrow> (d, w)
      | None \<Rightarrow>
          (case alloc (Obj []) (heap w) of
             (d, h0) \<Rightarrow>
               (case fold (defaultSlotStep d) (slots (meta (classes w c)))
                       (fold (defaultPropertyStep d) (properties (meta (classes w c)))
                          (h0, warnings w)) of
                  (h, ws) \<Rightarrow>
                    (d, w\<lparr>heap := h, warnings := ws,
                          classes := (classes w)(c := (classes w c)\<lparr>defaultStateRef := Some d\<rparr>)\<rparr>))))"

text \<open>The own entries of an object, as \<open>Object.assign\<close> reads them.\<close>

definition ownEntries :: "heap \<Rightarrow> nat \<Rightarrow> (string \<times> jsval) list" where
  "ownEntries h a =
     (if a < length h then (case h ! a of Obj kvs \<Rightarrow> kvs | Arr xs \<Rightarrow> []) else [])"

text \<open>\<open>_initializeState\<close>: \<open>this._state = Object.assign({}, defaultState)\<close>.\<close>

definition initializeState :: "nat \<Rightarrow> world \<Rightarrow> world" where
  "initializeState n w =
     (case getDefaultState (klass (nodes w n)) w of
        (d, w1) \<Rightarrow>
          (case alloc (Obj (ownEntries (heap w1) d)) (heap w1) of
             (a, h) \<Rightarrow> w1\<lparr>heap := h, nodes := (nodes w1)(n := (nodes w1 n)\<lparr>stateRef := a\<rparr>)\<rparr>))"

text \<open>
  \<open>Array.prototype.push\<close> on the array at an address: what a holder of the array that a
  getter returned can do to it in place.
\<close>

definition arrayPush :: "nat \<Rightarrow> jsval \<Rightarrow> heap \<Rightarrow> heap" where
  "arrayPush a v h =
     (if a < length h then (case h ! a of Arr xs \<Rightarrow> h[a := Arr (xs @ [v])] | Obj kvs \<Rightarrow> h) else h)"

section \<open>Rendering\<close>

text \<open>
  \<open>_updateShadowRoot\<close>: the template is applied to the instance and the external renderer
  fills the shadow root. The call is recorded with the entries of the state it was made
  on. An instance without a shadow root has no template, and the call throws.
\<close>

definition updateShadowRoot :: "env \<Rightarrow> nat \<Rightarrow> world \<Rightarrow> outcome" where
  "updateShadowRoot E n w =
     (case shadowRoot (nodes w n) of
        None \<Rightarrow> (Some TypeError, w)
      | Some len \<Rightarrow>
          (None, w\<lparr>renderLog := renderLog w @ [(n, ownEntries (heap w) (stateRef (nodes w n)))],
                   nodes := (nodes w)(n := (nodes w n)\<lparr>shadowRoot := Some (shadowChildren E)\<rparr>)\<rparr>))"

text \<open>\<open>_assignIndividualSlotsToChildren\<close>, over the element children.\<close>

definition assignIndividualSlot :: "nat \<Rightarrow> world \<Rightarrow> world" where
  "assignIndividualSlot child w =
     (case individualSlot (nodes w child) of
        None \<Rightarrow> w
      | Some s \<Rightarrow>
          (if s = [] then w
           else w\<lparr>nodes := (nodes w)(child := (nodes w child)\<lparr>attributes :=
                    AList.update ''slot'' s (attributes (nodes w child))\<rparr>)\<rparr>))"

definition assignIndividualSlotsToChildren :: "nat \<Rightarrow> world \<Rightarrow> world" where
  "assignIndividualSlotsToChildren n w =
     fold assignIndividualSlot
       (filter (\<lambda>c. kind (nodes w c) \<noteq> TextNode) (childNodes (nodes w n))) w"

definition runHook :: "(nat \<Rightarrow> world \<Rightarrow> world) option \<Rightarrow> nat \<Rightarrow> world \<Rightarrow> world" where
  "runHook hook n w = (case hook of None \<Rightarrow> w | Some f \<Rightarrow> f n w)"

text \<open>
  \<open>_render\<close>. The update of the static area item is the collaborator's and changes
  nothing here. An error of the renderer leaves the rest of the function undone.
\<close>

definition render :: "env \<Rightarrow> nat \<Rightarrow> world \<Rightarrow> outcome" where
  "render E n w =
     (let w1 = w\<lparr>nodes := (nodes w)(n := (nodes w n)\<lparr>suppressInvalidation := True\<rparr>)\<rparr>;
          w2 = runHook (onBeforeRendering E) n w1;
          w3 = runHook (onComponentStateFinalized E) n w2;
          w4 = w3\<lparr>nodes := (nodes w3)(n := (nodes w3 n)\<lparr>suppressInvalidation := False\<rparr>)\<rparr>;
          w5 = w4\<lparr>nodes := (nodes w4)(n := (nodes w4 n)\<lparr>invalidated := False\<rparr>)\<rparr>
      in case updateShadowRoot E n w5 of
           (Some e, w6) \<Rightarrow> (Some e, w6)
         | (None, w6) \<Rightarrow>
             (None, runHook (onAfterRendering E) n (assignIndividualSlotsToChildren n w6)))"

text \<open>
  Modelled from the spec: the render task of \<open>RenderScheduler\<close> is not among the sources.
  The spec says that "the deferred render task runs asynchronously" and that "multiple
  invalidations arriving before the task executes collapse into a single render": the task
  takes the pending renders off the queue and runs \<open>_render\<close> for each.
\<close>

definition renderWebComponents :: "env \<Rightarrow> world \<Rightarrow> world" where
  "renderWebComponents E w =
     fold (\<lambda>n w'. snd (render E n w')) (renderQueue w) (w\<lparr>renderQueue := []\<rparr>)"

section \<open>The animation mode\<close>

text \<open>
  \<open>getAnimationMode\<close> of the configuration module. The module variable \<open>animationMode\<close> is
  the state; \<open>getConfiguredAnimationMode\<close> is imported from the initial configuration. The
  result is the value returned and the module variable after the call.
\<close>

definition getAnimationMode :: "(unit \<Rightarrow> jsval) \<Rightarrow> jsval \<Rightarrow> jsval \<times> jsval" where
  "getAnimationMode getConfiguredAnimationMode animationMode =
     (if animationMode = Undefined
      then (let discarded = getConfiguredAnimationMode () in (animationMode, animationMode))
      else (animationMode, animationMode))"

section \<open>An example document\<close>

text \<open>
  A component with three children, used to evaluate the definitions: node 0 is the parent,
  already rendered; its children are, in document order, node 2 (\<open>a\<close>, slot attribute
  \<open>x-2\<close>), node 3 (\<open>b\<close>, slot attribute \<open>x-1\<close>) and node 4 (\<open>c\<close>, no slot attribute).
  No element type is registered with the browser yet.
\<close>

definition exampleEnv :: env where
  "exampleEnv =
     \<lparr>validatePropertyValue = (\<lambda>v propData. Inr v),
      validateSlotValue = (\<lambda>child slotData. Inr child),
      isValidPropertyName = (\<lambda>name. True),
      hasAttribute = (\<lambda>m name. True),
      camelToKebabCase = (\<lambda>name. name),
      whenDefined = (\<lambda>name. None),
      onBeforeRendering = None,
      onComponentStateFinalized = None,
      onAfterRendering = None,
      shadowChildren = 1\<rparr>"

definition exampleMeta :: metadata where
  "exampleMeta =
     \<lparr>tag = ''ui5-demo'',
      properties =
        [(''text'', \<lparr>propType = TyString, multiple = False, defaultValue = None\<rparr>),
         (''checked'', \<lparr>propType = TyBoolean, multiple = False, defaultValue = Some (JBool True)\<rparr>)],
      slots =
        [(''default'', \<lparr>slotType = TyHTMLElement, propertyName = Some ''content'',
                        individualSlots = False, listenFor = NoListenFor\<rparr>),
         (''x'', \<lparr>slotType = TyHTMLElement, propertyName = None,
                  individualSlots = True, listenFor = ListenObject None (Some [''checked''])\<rparr>)]\<rparr>"

definition exampleNode :: node where
  "exampleNode =
     \<lparr>kind = HTMLElement, isUI5Element = True, localName = ''ui5-demo'', attributes = [],
      parentNode = None, childNodes = [], klass = 0, stateRef = 0, invalidated = False,
      suppressInvalidation = False, shadowRoot = Some 1, monitoredChildProps = [],
      propertyChangeListener = False, individualSlot = None\<rparr>"

definition exampleState :: hobj where
  "exampleState = Obj [(''text'', JStr ''a''), (''checked'', JBool False), (''content'', Ref 1), (''x'', Ref 5)]"

definition exampleWorld :: world where
  "exampleWorld =
     \<lparr>heap = [exampleState, Arr [], exampleState, exampleState, exampleState, Arr []],
      nodes = (\<lambda>n. exampleNode)
        (0 := exampleNode\<lparr>childNodes := [2, 3, 4]\<rparr>,
         2 := exampleNode\<lparr>attributes := [(''slot'', ''x-2'')], parentNode := Some 0, stateRef := 2\<rparr>,
         3 := exampleNode\<lparr>attributes := [(''slot'', ''x-1'')], parentNode := Some 0, stateRef := 3\<rparr>,
         4 := exampleNode\<lparr>parentNode := Some 0, stateRef := 4\<rparr>),
      nodeCount = 5,
      classes = (\<lambda>c. \<lparr>meta = exampleMeta, defaultStateRef = None, accessors = []\<rparr>),
      renderQueue = [],
      eventLog = [],
      renderLog = [],
      warnings = [],
      DefinitionsSet = [],
      customElements = [],
      elementTimeouts = [],
      now = 0\<rparr>"

text \<open>The example world after the class of its nodes has been defined once.\<close>

definition definedOnce :: world where
  "definedOnce = snd (defineElement exampleEnv 0 exampleWorld)"

text \<open>
  The data of the slot \<open>x\<close> of the example class, and the example world once the parent
  watches its child \<open>a\<close>.
\<close>

definition exampleSlotX :: slot_data where
  "exampleSlotX = \<lparr>slotType = TyHTMLElement, propertyName = None,
                    individualSlots = True, listenFor = ListenObject None (Some [''checked''])\<rparr>"


section \<open>Notions used in the proofs\<close>

text \<open>The condition under which \<open>_invalidate\<close> schedules a render.\<close>

definition canInvalidate :: "node \<Rightarrow> bool" where
  "canInvalidate nd = (\<not> invalidated nd \<and> getDomRef nd \<noteq> None \<and> \<not> suppressInvalidation nd)"





text \<open>
  What a property write on a child that is not subscribed leaves alone: the node \<open>p\<close>, its
  place in the queue, and the parents and subscriptions of all nodes.
\<close>

definition quiet :: "nat \<Rightarrow> world \<Rightarrow> world \<Rightarrow> bool" where
  "quiet p w w' =
     (nodes w' p = nodes w p
      \<and> count_list (renderQueue w') p = count_list (renderQueue w) p
      \<and> nodeCount w' = nodeCount w
      \<and> (\<forall>m. parentNode (nodes w' m) = parentNode (nodes w m))
      \<and> (\<forall>m. propertyChangeListener (nodes w' m) = propertyChangeListener (nodes w m)))"

text \<open>
  The example document after its first distribution (with no order imposed on the waiting
  children), then after the render that follows (\<open>rendered\<close>), then after the slot \<open>x\<close> has
  been cleared and the parent has rendered again (\<open>cleared\<close>). The last two are written
  out; that they are what the functions compute is proved below.
\<close>

definition distributed :: world where
  "distributed = (case updateSlots exampleEnv [] 0 exampleWorld of
                    Some (e, w) \<Rightarrow> w | None \<Rightarrow> exampleWorld)"

definition renderedState :: hobj where
  "renderedState = Obj [(''text'', JStr ''a''), (''checked'', JBool False), (''content'', Ref 9), (''x'', Ref 8)]"

definition rendered :: world where
  "rendered =
     \<lparr>heap = [renderedState, Arr [], exampleState, exampleState, exampleState, Arr [], Arr [], Arr [],
              Arr [NodeRef 2, NodeRef 3], Arr [NodeRef 4]],
      nodes = (\<lambda>n. exampleNode)
        (0 := exampleNode\<lparr>childNodes := [2, 3, 4],
                monitoredChildProps := [(''x'', [''text'', ''checked''], [''checked''])]\<rparr>,
         2 := exampleNode\<lparr>attributes := [(''slot'', ''x-1'')], parentNode := Some 0, stateRef := 2,
                propertyChangeListener := True, individualSlot := Some ''x-1''\<rparr>,
         3 := exampleNode\<lparr>attributes := [(''slot'', ''x-2'')], parentNode := Some 0, stateRef := 3,
                propertyChangeListener := True, individualSlot := Some ''x-2''\<rparr>,
         4 := exampleNode\<lparr>parentNode := Some 0, stateRef := 4\<rparr>),
      nodeCount = 5,
      classes = (\<lambda>c. \<lparr>meta = exampleMeta, defaultStateRef = None, accessors = []\<rparr>),
      renderQueue = [],
      eventLog = [],
      renderLog = [(0, [(''text'', JStr ''a''), (''checked'', JBool False), (''content'', Ref 9), (''x'', Ref 8)])],
      warnings = [],
      DefinitionsSet = [],
      customElements = [],
      elementTimeouts = [(''ui5-demo'', 1000)],
      now = 1000\<rparr>"

definition cleared :: world where
  "cleared =
     rendered\<lparr>heap := [Obj [(''text'', JStr ''a''), (''checked'', JBool False), (''content'', Ref 9), (''x'', Ref 10)],
                       Arr [], exampleState, exampleState, exampleState, Arr [], Arr [], Arr [],
                       Arr [NodeRef 2, NodeRef 3], Arr [NodeRef 4], Arr []],
              nodes := (nodes rendered)
                (2 := (nodes rendered 2)\<lparr>propertyChangeListener := False\<rparr>,
                 3 := (nodes rendered 3)\<lparr>propertyChangeListener := False\<rparr>),
              renderLog := renderLog rendered
                @ [(0, [(''text'', JStr ''a''), (''checked'', JBool False), (''content'', Ref 9), (''x'', Ref 10)])]\<rparr>"

text \<open>The cached snapshot of a class, when there is one, is an address of the heap.\<close>

definition cacheValid :: "world \<Rightarrow> nat \<Rightarrow> bool" where
  "cacheValid w c = (case defaultStateRef (classes w c) of None \<Rightarrow> True | Some d \<Rightarrow> d < length (heap w))"

text \<open>Two instances of the example class, constructed one after the other.\<close>

definition twoInstances :: world where
  "twoInstances = initializeState 3 (initializeState 2 exampleWorld)"

section \<open>Theorems\<close>

text \<open>
  C10, at the failing input: with the configured animation mode \<open>"full"\<close> and a module
  variable not yet set, the getter calls the configuration getter, drops its result and
  returns \<open>undefined\<close>; the module variable stays \<open>undefined\<close>.
\<close>

theorem getAnimationMode_returns_undefined:
  "getAnimationMode (\<lambda>u. JStr ''full'') Undefined = (Undefined, Undefined)"
  by (simp add: getAnimationMode_def)

subsection \<open>C3: writing the stored value again\<close>

text \<open>
  C3. When the validated value is identical (\<open>===\<close>) to the value the state holds for the
  property, the setter returns the world it was given: the state, the invalidation flag,
  the queue of renders, the attributes and the log of dispatched events are all unchanged.
\<close>

theorem setter_same_value_noop:
  assumes "map_of (properties (meta (classes w (klass (nodes w n))))) prop = Some propData"
    and "validatePropertyValue E val propData = Inr v"
    and "strictEquals (getProp (heap w) (stateRef (nodes w n)) prop) v"
  shows "setProperty E n prop val w = (None, w)"
  using assms by (simp add: setProperty_def)

theorem setter_same_value_noop_witness:
  "setProperty exampleEnv 0 ''text'' (JStr ''a'') exampleWorld = (None, exampleWorld)
   \<and> getProp (heap exampleWorld) (stateRef (nodes exampleWorld 0)) ''text'' = JStr ''a''"
proof -
  have p: "map_of (properties (meta (classes exampleWorld (klass (nodes exampleWorld 0))))) ''text''
        = Some \<lparr>propType = TyString, multiple = False, defaultValue = None\<rparr>"
    by (simp add: exampleWorld_def exampleMeta_def exampleNode_def)
  have v: "validatePropertyValue exampleEnv (JStr ''a'') \<lparr>propType = TyString, multiple = False, defaultValue = None\<rparr> = Inr (JStr ''a'')"
    by (simp add: exampleEnv_def)
  have g: "getProp (heap exampleWorld) (stateRef (nodes exampleWorld 0)) ''text'' = JStr ''a''"
    by (simp add: exampleWorld_def exampleNode_def exampleState_def getProp_def)
  have s: "strictEquals (getProp (heap exampleWorld) (stateRef (nodes exampleWorld 0)) ''text'') (JStr ''a'')"
    by (simp add: g strictEquals_def)
  show ?thesis using setter_same_value_noop [OF p v s] g by simp
qed

subsection \<open>C8: \<open>define\<close> called again\<close>

lemma define_registered:
  assumes "t \<in> set (DefinitionsSet w)" and "map_of (customElements w) t \<noteq> None"
    and "tag (meta (classes w c)) = t"
  shows "defineElement E c w = (None, w)"
  using assms by (simp add: defineElement_def Let_def)

lemma generateAccessors_frame:
  assumes "generateAccessors E c w = (e, w1)"
  shows "DefinitionsSet w1 = DefinitionsSet w \<and> customElements w1 = customElements w
       \<and> warnings w1 = warnings w \<and> meta (classes w1 c') = meta (classes w c')"
  using assms
  by (auto simp: generateAccessors_def Let_def split: prod.splits option.splits)

lemma filter_update_fresh:
  "map_of xs k = None \<Longrightarrow> filter (\<lambda>p. fst p = k) (AList.update k v xs) = [(k, v)]"
  by (induction xs) (auto split: if_splits)

lemma example_tag: "tag (meta (classes exampleWorld c)) = ''ui5-demo''"
  by (simp add: exampleWorld_def exampleMeta_def)

lemma example_first_define: "defineElement exampleEnv 0 exampleWorld = (None, definedOnce)"
proof -
  have "fst (defineElement exampleEnv 0 exampleWorld) = None"
    by (simp add: defineElement_def generateAccessors_def defineProperty_def slotPropertyName_def
        Let_def exampleWorld_def exampleMeta_def exampleEnv_def)
  then show ?thesis by (simp add: definedOnce_def prod_eq_iff)
qed

text \<open>
  C8, as the code has it. After a successful \<open>define\<close> of a class whose tag was not yet
  registered, a second \<open>define\<close>, of the same class or of any class with that tag,
  returns the world unchanged: no accessor is generated again, the registry keeps its one
  entry for the tag, and no warning is logged. A tag that is registered both with the
  browser and with this module makes \<open>define\<close> return the world unchanged; a tag that is
  registered with the browser but not with this module makes it log one warning and
  change nothing else.
\<close>

theorem define_idempotent:
  assumes t: "t = tag (meta (classes w c))"
  shows "(map_of (customElements w) t = None \<and> defineElement E c w = (None, w1) \<longrightarrow>
            defineElement E c w1 = (None, w1)
          \<and> (\<forall>c'. tag (meta (classes w1 c')) = t \<longrightarrow> defineElement E c' w1 = (None, w1))
          \<and> warnings w1 = warnings w
          \<and> filter (\<lambda>p. fst p = t) (customElements w1) = [(t, LocalClass c)])
       \<and> (map_of (customElements w) t \<noteq> None \<and> t \<in> set (DefinitionsSet w) \<longrightarrow>
            defineElement E c w = (None, w))
       \<and> (map_of (customElements w) t \<noteq> None \<and> t \<notin> set (DefinitionsSet w) \<longrightarrow>
            defineElement E c w = (None, w\<lparr>warnings := warnings w @ [SkippingDefinition t]\<rparr>))"
proof (intro conjI impI)
  assume h: "map_of (customElements w) t = None \<and> defineElement E c w = (None, w1)"
  obtain w0 where g: "generateAccessors E c w = (None, w0)"
    and w1: "w1 = w0\<lparr>DefinitionsSet := List.insert t (DefinitionsSet w0),
                     customElements := AList.update t (LocalClass c) (customElements w0)\<rparr>"
    using h t by (auto simp: defineElement_def Let_def split: prod.splits option.splits)
  note fr = generateAccessors_frame [OF g]
  have loc: "t \<in> set (DefinitionsSet w1)" by (simp add: w1)
  have glob: "map_of (customElements w1) t \<noteq> None" by (simp add: w1 update_conv')
  have metas: "\<And>c'. meta (classes w1 c') = meta (classes w c')" using fr by (simp add: w1)
  show "defineElement E c w1 = (None, w1)"
    by (rule define_registered [OF loc glob]) (simp add: metas t)
  show "\<forall>c'. tag (meta (classes w1 c')) = t \<longrightarrow> defineElement E c' w1 = (None, w1)"
    using define_registered [OF loc glob] by blast
  show "warnings w1 = warnings w" using fr by (simp add: w1)
  show "filter (\<lambda>p. fst p = t) (customElements w1) = [(t, LocalClass c)]"
    using h fr by (simp add: w1 filter_update_fresh)
next
  assume "map_of (customElements w) t \<noteq> None \<and> t \<in> set (DefinitionsSet w)"
  then show "defineElement E c w = (None, w)"
    using t by (intro define_registered [of t]) simp_all
next
  assume "map_of (customElements w) t \<noteq> None \<and> t \<notin> set (DefinitionsSet w)"
  then show "defineElement E c w = (None, w\<lparr>warnings := warnings w @ [SkippingDefinition t]\<rparr>)"
    using t by (simp add: defineElement_def Let_def)
qed

theorem define_idempotent_witness:
  "defineElement exampleEnv 0 definedOnce = (None, definedOnce)
   \<and> warnings definedOnce = []
   \<and> defineElement exampleEnv 0 (exampleWorld\<lparr>customElements := [(''ui5-demo'', ForeignClass)]\<rparr>)
       = (None, exampleWorld\<lparr>customElements := [(''ui5-demo'', ForeignClass)],
                            warnings := [SkippingDefinition ''ui5-demo'']\<rparr>)"
proof -
  have fresh: "map_of (customElements exampleWorld) ''ui5-demo'' = None"
    by (simp add: exampleWorld_def)
  have a: "defineElement exampleEnv 0 definedOnce = (None, definedOnce) \<and> warnings definedOnce = warnings exampleWorld"
    using define_idempotent [of "''ui5-demo''" exampleWorld 0 exampleEnv definedOnce]
      example_tag example_first_define fresh by simp
  let ?w = "exampleWorld\<lparr>customElements := [(''ui5-demo'', ForeignClass)]\<rparr>"
  have "tag (meta (classes ?w 0)) = ''ui5-demo''" by (simp add: example_tag)
  moreover have "map_of (customElements ?w) ''ui5-demo'' \<noteq> None" by simp
  moreover have "''ui5-demo'' \<notin> set (DefinitionsSet ?w)" by (simp add: exampleWorld_def)
  ultimately have b: "defineElement exampleEnv 0 ?w = (None, ?w\<lparr>warnings := warnings ?w @ [SkippingDefinition ''ui5-demo'']\<rparr>)"
    using define_idempotent [of "''ui5-demo''" ?w 0 exampleEnv] by simp
  have w: "warnings exampleWorld = []" by (simp add: exampleWorld_def)
  from a b w show ?thesis by simp
qed

text \<open>
  C8 as stated fails: the second \<open>define\<close> of the same class logs no warning.
\<close>

theorem second_define_gives_no_warning:
  "fst (defineElement exampleEnv 0 (snd (defineElement exampleEnv 0 exampleWorld))) = None
   \<and> warnings (snd (defineElement exampleEnv 0 (snd (defineElement exampleEnv 0 exampleWorld)))) = []"
  by (simp add: defineElement_def generateAccessors_def defineProperty_def slotPropertyName_def
        Let_def exampleWorld_def exampleMeta_def exampleEnv_def)

subsection \<open>C7: a Boolean property with a default value\<close>

text \<open>
  C7, at the failing input: the property \<open>checked\<close> of the example class has the type
  \<open>Boolean\<close> and the default value \<open>true\<close>, and \<open>_generateAccessors\<close> throws nothing and
  defines all four accessors. The test of the source compares the type with the string
  \<open>"boolean"\<close>.
\<close>

theorem boolean_default_not_rejected:
  "map_of (properties (meta (classes exampleWorld 0))) ''checked''
     = Some \<lparr>propType = TyBoolean, multiple = False, defaultValue = Some (JBool True)\<rparr>
   \<and> fst (generateAccessors exampleEnv 0 exampleWorld) = None
   \<and> accessors (classes (snd (generateAccessors exampleEnv 0 exampleWorld)) 0)
       = [''text'', ''checked'', ''content'', ''x'']"
  by (simp add: generateAccessors_def defineProperty_def slotPropertyName_def
        Let_def exampleWorld_def exampleMeta_def exampleEnv_def)

subsection \<open>Facts about the example document\<close>


lemma example_slot_name_b: "getSlotName (nodes exampleWorld 3) = ''x''"
  by code_simp

lemma example_slot_name_c: "getSlotName (nodes exampleWorld 4) = ''default''"
  by code_simp




subsection \<open>C4: a child's property change reaches its parent\<close>




subsection \<open>C1: invalidation and the coalescing of renders\<close>

lemma invalidate_nodes:
  "nodes (invalidate m w) k
     = (if k = m \<and> canInvalidate (nodes w m) then (nodes w m)\<lparr>invalidated := True\<rparr> else nodes w k)"
  by (simp add: invalidate_def renderDeferred_def canInvalidate_def Let_def)

lemma invalidate_queue:
  "renderQueue (invalidate m w) = renderQueue w @ (if canInvalidate (nodes w m) then [m] else [])"
  by (simp add: invalidate_def renderDeferred_def canInvalidate_def Let_def)

lemma invalidate_rest:
  "heap (invalidate m w) = heap w" "classes (invalidate m w) = classes w"
  "nodeCount (invalidate m w) = nodeCount w" "eventLog (invalidate m w) = eventLog w"
  "warnings (invalidate m w) = warnings w"
  by (simp_all add: invalidate_def renderDeferred_def Let_def)






lemma runListener_cases:
  "runListener name m w = w \<or> (\<exists>p. runListener name m w = invalidate p w)"
  by (auto simp: runListener_def invalidateParentOnPropertyUpdate_def split: option.splits)


lemma heap_runListener: "heap (runListener name m w) = heap w"
  using runListener_cases [of name m w] by (auto simp: invalidate_rest)


lemma heap_fold_runListener: "heap (fold (runListener name) path w) = heap w"
  by (induction path arbitrary: w) (simp_all add: heap_runListener)



lemma heap_dispatchEvent: "heap (dispatchEvent t name v w) = heap w"
  by (simp add: dispatchEvent_def heap_fold_runListener)



lemma heap_updateAttribute: "heap (updateAttribute E m name v w) = heap w"
  unfolding updateAttribute_def Let_def
  by (cases v) simp_all



lemma heap_propertyChange: "heap (propertyChange E m name v w) = heap w"
  by (simp add: propertyChange_def heap_dispatchEvent heap_updateAttribute)






lemma heap_setProperty:
  "heap (snd (setProperty E n pn val w)) = heap w
   \<or> (\<exists>v. heap (snd (setProperty E n pn val w)) = setProp (heap w) (stateRef (nodes w n)) pn v)"
  unfolding setProperty_def Let_def
  by (auto simp: heap_propertyChange invalidate_rest split: option.splits sum.splits)

















subsection \<open>C5: clearing a slot\<close>

lemma quiet_refl: "quiet p w w"
  by (simp add: quiet_def)

lemma quiet_trans: "quiet p w w1 \<Longrightarrow> quiet p w1 w2 \<Longrightarrow> quiet p w w2"
  by (simp add: quiet_def)

lemma quiet_invalidate: "m \<noteq> p \<Longrightarrow> quiet p w (invalidate m w)"
  by (simp add: quiet_def invalidate_nodes invalidate_queue invalidate_rest)

lemma quiet_heap: "quiet p w (w\<lparr>heap := h\<rparr>)"
  by (simp add: quiet_def)

lemma quiet_eventLog: "quiet p w (w\<lparr>eventLog := l\<rparr>)"
  by (simp add: quiet_def)

lemma quiet_attributes:
  "m \<noteq> p \<Longrightarrow> quiet p w (w\<lparr>nodes := (nodes w)(m := (nodes w m)\<lparr>attributes := as\<rparr>)\<rparr>)"
  by (simp add: quiet_def)

lemma quiet_updateAttribute: "m \<noteq> p \<Longrightarrow> quiet p w (updateAttribute E m name v w)"
  unfolding updateAttribute_def Let_def
  by (cases v) (simp_all add: quiet_refl quiet_attributes)

lemma quiet_runListener:
  "\<not> propertyChangeListener (nodes w m) \<or> parentNode (nodes w m) \<noteq> Some p
   \<Longrightarrow> quiet p w (runListener name m w)"
  by (auto simp: runListener_def invalidateParentOnPropertyUpdate_def quiet_refl quiet_invalidate
      split: option.splits)

lemma quiet_fold_runListener:
  "list_all (\<lambda>m. \<not> propertyChangeListener (nodes w m) \<or> parentNode (nodes w m) \<noteq> Some p) path
   \<Longrightarrow> quiet p w (fold (runListener name) path w)"
proof (induction path arbitrary: w)
  case Nil
  show ?case by (simp add: quiet_refl)
next
  case (Cons m path)
  let ?w1 = "runListener name m w"
  have q1: "quiet p w ?w1" using Cons.prems by (intro quiet_runListener) simp
  have "list_all (\<lambda>m. \<not> propertyChangeListener (nodes ?w1 m) \<or> parentNode (nodes ?w1 m) \<noteq> Some p) path"
    using Cons.prems q1 by (simp add: quiet_def)
  from Cons.IH [OF this] have "quiet p ?w1 (fold (runListener name) path ?w1)" .
  with q1 show ?case by (simp add: quiet_trans)
qed

lemma propagationPath_mono:
  "set (propagationPath f ns n) \<subseteq> set (propagationPath (Suc f) ns n)"
proof (induction f arbitrary: n)
  case 0
  show ?case by simp
next
  case (Suc f)
  show ?case
  proof (cases "parentNode (ns n)")
    case None
    then show ?thesis by simp
  next
    case (Some q)
    have "set (propagationPath f ns q) \<subseteq> set (propagationPath (Suc f) ns q)" by (rule Suc.IH)
    then have "set (n # propagationPath f ns q) \<subseteq> set (n # propagationPath (Suc f) ns q)"
      by auto
    moreover have "propagationPath (Suc f) ns n = n # propagationPath f ns q"
      using Some by simp
    moreover have "propagationPath (Suc (Suc f)) ns n = n # propagationPath (Suc f) ns q"
      using Some by simp
    ultimately show ?thesis by metis
  qed
qed

lemma propagationPath_child:
  "parentNode (ns c) = Some p \<Longrightarrow> set (propagationPath f ns c) \<subseteq> insert c (set (propagationPath f ns p))"
proof (cases f)
  case 0
  then show ?thesis by simp
next
  case (Suc g)
  assume par: "parentNode (ns c) = Some p"
  have "propagationPath (Suc g) ns c = c # propagationPath g ns p" using par by simp
  moreover have "set (propagationPath g ns p) \<subseteq> set (propagationPath (Suc g) ns p)"
    by (rule propagationPath_mono)
  ultimately show ?thesis unfolding Suc by auto
qed

lemma propagationPath_cong:
  "(\<And>m. parentNode (ns' m) = parentNode (ns m)) \<Longrightarrow> propagationPath f ns' n = propagationPath f ns n"
  by (induction f arbitrary: n) (auto split: option.splits)

lemma propagationPath_head: "n \<in> set (propagationPath f ns n)"
  by (cases f) auto

lemma quiet_dispatchEvent:
  assumes nl: "\<not> propertyChangeListener (nodes w c)"
    and par: "parentNode (nodes w c) = Some p"
    and tree: "list_all (\<lambda>m. parentNode (nodes w m) \<noteq> Some p) (propagationPath (nodeCount w) (nodes w) p)"
  shows "quiet p w (dispatchEvent c name v w)"
proof -
  let ?w1 = "w\<lparr>eventLog := eventLog w @ [(c, name, v)]\<rparr>"
  let ?path = "propagationPath (nodeCount w) (nodes w) c"
  have "\<forall>m \<in> set ?path. \<not> propertyChangeListener (nodes w m) \<or> parentNode (nodes w m) \<noteq> Some p"
    using propagationPath_child [of "nodes w" c p "nodeCount w"] par nl tree
    by (auto simp: list_all_iff)
  then have "list_all (\<lambda>m. \<not> propertyChangeListener (nodes ?w1 m) \<or> parentNode (nodes ?w1 m) \<noteq> Some p) ?path"
    by (simp add: list_all_iff)
  from quiet_fold_runListener [OF this]
  have "quiet p ?w1 (fold (runListener name) ?path ?w1)" .
  then show ?thesis
    using quiet_trans [OF quiet_eventLog] by (simp add: dispatchEvent_def)
qed

lemma quiet_setProperty:
  assumes nl: "\<not> propertyChangeListener (nodes w c)"
    and par: "parentNode (nodes w c) = Some p"
    and tree: "list_all (\<lambda>m. parentNode (nodes w m) \<noteq> Some p) (propagationPath (nodeCount w) (nodes w) p)"
  shows "quiet p w (snd (setProperty E c pn val w))"
proof -
  have "parentNode (nodes w p) \<noteq> Some p"
    using tree propagationPath_head [of p "nodeCount w" "nodes w"] by (auto simp: list_all_iff)
  with par have ne: "c \<noteq> p" by auto
  have step: "quiet p w (propertyChange E c pn v
                 (invalidate c (w\<lparr>heap := setProp (heap w) (stateRef (nodes w c)) pn v\<rparr>)))" for v
  proof -
    define w2 where "w2 = invalidate c (w\<lparr>heap := setProp (heap w) (stateRef (nodes w c)) pn v\<rparr>)"
    define w3 where "w3 = updateAttribute E c pn v w2"
    have q2: "quiet p w w2"
      unfolding w2_def by (rule quiet_trans [OF quiet_heap quiet_invalidate [OF ne]])
    have q3: "quiet p w w3"
      unfolding w3_def by (rule quiet_trans [OF q2 quiet_updateAttribute [OF ne]])
    have nl3: "\<not> propertyChangeListener (nodes w3 c)" using q3 nl by (simp add: quiet_def)
    have par3: "parentNode (nodes w3 c) = Some p" using q3 par by (simp add: quiet_def)
    have pn3: "\<And>m. parentNode (nodes w3 m) = parentNode (nodes w m)" using q3 by (simp add: quiet_def)
    have nc3: "nodeCount w3 = nodeCount w" using q3 by (simp add: quiet_def)
    have pc: "propagationPath (nodeCount w3) (nodes w3) p = propagationPath (nodeCount w) (nodes w) p"
      unfolding nc3 by (rule propagationPath_cong) (rule pn3)
    have tree3: "list_all (\<lambda>m. parentNode (nodes w3 m) \<noteq> Some p)
                   (propagationPath (nodeCount w3) (nodes w3) p)"
      unfolding pc using tree by (simp add: pn3)
    have "quiet p w (dispatchEvent c pn v w3)"
      by (rule quiet_trans [OF q3 quiet_dispatchEvent [OF nl3 par3 tree3]])
    then show ?thesis by (simp add: propertyChange_def w3_def w2_def)
  qed
  show ?thesis
    unfolding setProperty_def Let_def
    by (auto simp: quiet_refl step split: option.splits sum.splits)
qed

lemma clearSlotChild_nodes:
  "nodes (clearSlotChild v w) m
     = (if v = NodeRef m \<and> isUI5Element (nodes w m)
        then (nodes w m)\<lparr>propertyChangeListener := False\<rparr> else nodes w m)"
  by (cases v) (auto simp: clearSlotChild_def detachChildPropertyUpdated_def)

lemma clearSlotChild_rest:
  "heap (clearSlotChild v w) = heap w" "renderQueue (clearSlotChild v w) = renderQueue w"
  "classes (clearSlotChild v w) = classes w"
  by (cases v; simp add: clearSlotChild_def detachChildPropertyUpdated_def)+

lemma fold_clearSlotChild_nodes:
  "nodes (fold clearSlotChild vs w) m
     = (if NodeRef m \<in> set vs \<and> isUI5Element (nodes w m)
        then (nodes w m)\<lparr>propertyChangeListener := False\<rparr> else nodes w m)"
  by (induction vs arbitrary: w) (auto simp: clearSlotChild_nodes)

lemma fold_clearSlotChild_heap: "heap (fold clearSlotChild vs w) = heap w"
  by (induction vs arbitrary: w) (simp_all add: clearSlotChild_rest)

lemma rendered_computed:
  "map (nodes (renderWebComponents exampleEnv distributed)) [0, 2, 3, 4] = map (nodes rendered) [0, 2, 3, 4]
   \<and> heap (renderWebComponents exampleEnv distributed) = heap rendered
   \<and> renderQueue (renderWebComponents exampleEnv distributed) = renderQueue rendered
   \<and> renderLog (renderWebComponents exampleEnv distributed) = renderLog rendered
   \<and> elementTimeouts (renderWebComponents exampleEnv distributed) = elementTimeouts rendered
   \<and> now (renderWebComponents exampleEnv distributed) = now rendered
   \<and> warnings (renderWebComponents exampleEnv distributed) = warnings rendered"
  by code_simp

lemma cleared_computed:
  "map (nodes (renderWebComponents exampleEnv (snd (clearSlot 0 ''x'' rendered)))) [0, 2, 3, 4]
     = map (nodes cleared) [0, 2, 3, 4]
   \<and> heap (renderWebComponents exampleEnv (snd (clearSlot 0 ''x'' rendered))) = heap cleared
   \<and> renderQueue (renderWebComponents exampleEnv (snd (clearSlot 0 ''x'' rendered))) = renderQueue cleared
   \<and> renderLog (renderWebComponents exampleEnv (snd (clearSlot 0 ''x'' rendered))) = renderLog cleared"
  by code_simp

lemma rendered_facts:
  "map_of (slots (meta (classes rendered (klass (nodes rendered 0))))) ''x'' = Some exampleSlotX
   \<and> asArray (heap rendered) (getProp (heap rendered) (stateRef (nodes rendered 0)) (slotPropertyName ''x'' exampleSlotX))
       = [NodeRef 2, NodeRef 3]
   \<and> isUI5Element (nodes rendered 2)
   \<and> propertyChangeListener (nodes rendered 2)"
  by code_simp

lemma cleared_facts:
  "\<not> propertyChangeListener (nodes cleared 2) \<and> parentNode (nodes cleared 2) = Some 0
   \<and> list_all (\<lambda>m. parentNode (nodes cleared m) \<noteq> Some 0)
         (propagationPath (nodeCount cleared) (nodes cleared) 0)
   \<and> \<not> invalidated (nodes cleared 0)
   \<and> getDomRef (nodes cleared 0) = Some 0
   \<and> \<not> suppressInvalidation (nodes cleared 0)
   \<and> renderQueue cleared = []"
  by code_simp

text \<open>
  C5, as the code has it. \<open>_clearSlot\<close> removes the property-change listener from every
  component child that the slot's backing array lists, and leaves the parent's record of
  watched properties as it was. A property write on a child that carries no listener
  leaves its parent node untouched and adds no render of the parent to the queue, in a
  document where the parent is not among its own ancestors.
\<close>

theorem clearSlot_unsubscribes:
  "(map_of (slots (meta (classes w (klass (nodes w this))))) slotName = Some slotData
      \<and> NodeRef c \<in> set (asArray (heap w)
            (getProp (heap w) (stateRef (nodes w this)) (slotPropertyName slotName slotData)))
      \<and> isUI5Element (nodes w c) \<longrightarrow>
        \<not> propertyChangeListener (nodes (snd (clearSlot this slotName w)) c)
      \<and> monitoredChildProps (nodes (snd (clearSlot this slotName w)) this)
          = monitoredChildProps (nodes w this))
   \<and> (\<not> propertyChangeListener (nodes w2 c) \<and> parentNode (nodes w2 c) = Some p
        \<and> list_all (\<lambda>m. parentNode (nodes w2 m) \<noteq> Some p)
             (propagationPath (nodeCount w2) (nodes w2) p) \<longrightarrow>
        nodes (snd (setProperty E c pn val w2)) p = nodes w2 p
      \<and> count_list (renderQueue (snd (setProperty E c pn val w2))) p
          = count_list (renderQueue w2) p)"
proof (intro conjI impI)
  assume h: "map_of (slots (meta (classes w (klass (nodes w this))))) slotName = Some slotData
      \<and> NodeRef c \<in> set (asArray (heap w)
            (getProp (heap w) (stateRef (nodes w this)) (slotPropertyName slotName slotData)))
      \<and> isUI5Element (nodes w c)"
  define vs where "vs = asArray (heap w)
            (getProp (heap w) (stateRef (nodes w this)) (slotPropertyName slotName slotData))"
  define w1 where "w1 = fold clearSlotChild vs w"
  obtain h1 where cs: "snd (clearSlot this slotName w) = invalidate this (w1\<lparr>heap := h1\<rparr>)"
    using h by (auto simp: clearSlot_def Let_def alloc_def w1_def vs_def)
  have n1: "\<And>m. nodes w1 m = (if NodeRef m \<in> set vs \<and> isUI5Element (nodes w m)
        then (nodes w m)\<lparr>propertyChangeListener := False\<rparr> else nodes w m)"
    unfolding w1_def by (rule fold_clearSlotChild_nodes)
  have "\<not> propertyChangeListener (nodes w1 c)" using h by (simp add: n1 vs_def)
  then show "\<not> propertyChangeListener (nodes (snd (clearSlot this slotName w)) c)"
    by (auto simp: cs invalidate_nodes)
  have "monitoredChildProps (nodes w1 this) = monitoredChildProps (nodes w this)"
    by (simp add: n1)
  then show "monitoredChildProps (nodes (snd (clearSlot this slotName w)) this)
          = monitoredChildProps (nodes w this)"
    by (auto simp: cs invalidate_nodes)
next
  assume h: "\<not> propertyChangeListener (nodes w2 c) \<and> parentNode (nodes w2 c) = Some p
        \<and> list_all (\<lambda>m. parentNode (nodes w2 m) \<noteq> Some p)
             (propagationPath (nodeCount w2) (nodes w2) p)"
  then have q: "quiet p w2 (snd (setProperty E c pn val w2))"
    by (intro quiet_setProperty) simp_all
  from q show "nodes (snd (setProperty E c pn val w2)) p = nodes w2 p" by (simp add: quiet_def)
  from q show "count_list (renderQueue (snd (setProperty E c pn val w2))) p
          = count_list (renderQueue w2) p" by (simp add: quiet_def)
qed

theorem clearSlot_unsubscribes_witness:
  "propertyChangeListener (nodes rendered 2)
   \<and> \<not> propertyChangeListener (nodes (snd (clearSlot 0 ''x'' rendered)) 2)
   \<and> monitoredChildProps (nodes (snd (clearSlot 0 ''x'' rendered)) 0) = monitoredChildProps (nodes rendered 0)
   \<and> \<not> invalidated (nodes (snd (setProperty exampleEnv 2 ''text'' (JStr ''z'') cleared)) 0)
   \<and> count_list (renderQueue (snd (setProperty exampleEnv 2 ''text'' (JStr ''z'') cleared))) 0 = 0"
proof -
  note t1 = clearSlot_unsubscribes [of rendered 0 "''x''" exampleSlotX 2 cleared 0 exampleEnv "''text''" "JStr ''z''"]
  have a: "\<not> propertyChangeListener (nodes (snd (clearSlot 0 ''x'' rendered)) 2)
      \<and> monitoredChildProps (nodes (snd (clearSlot 0 ''x'' rendered)) 0) = monitoredChildProps (nodes rendered 0)"
    using t1 rendered_facts by simp
  have "nodes (snd (setProperty exampleEnv 2 ''text'' (JStr ''z'') cleared)) 0 = nodes cleared 0
      \<and> count_list (renderQueue (snd (setProperty exampleEnv 2 ''text'' (JStr ''z'') cleared))) 0
          = count_list (renderQueue cleared) 0"
    using t1 cleared_facts by blast
  then have b: "\<not> invalidated (nodes (snd (setProperty exampleEnv 2 ''text'' (JStr ''z'') cleared)) 0)
      \<and> count_list (renderQueue (snd (setProperty exampleEnv 2 ''text'' (JStr ''z'') cleared))) 0 = 0"
    using cleared_facts by simp
  from a b rendered_facts show ?thesis by simp
qed

text \<open>
  C5 as stated fails: after the slot \<open>x\<close> has been cleared, and still after the next render,
  the parent holds the record it kept for that slot.
\<close>

theorem clearSlot_keeps_watch_record:
  "map_of (monitoredChildProps (nodes rendered 0)) ''x'' = Some ([''text'', ''checked''], [''checked''])
   \<and> asArray (heap (snd (clearSlot 0 ''x'' rendered)))
        (getProp (heap (snd (clearSlot 0 ''x'' rendered))) (stateRef (nodes rendered 0)) ''x'') = []
   \<and> map_of (monitoredChildProps (nodes (snd (clearSlot 0 ''x'' rendered)) 0)) ''x''
       = Some ([''text'', ''checked''], [''checked''])
   \<and> map_of (monitoredChildProps (nodes cleared 0)) ''x''
       = Some ([''text'', ''checked''], [''checked''])"
  by code_simp

subsection \<open>C6: the state of an instance and the cached snapshot\<close>

lemma length_setProp: "length (setProp h a k v) = length h"
  by (simp add: setProp_def split: hobj.splits)

lemma defaultPropertyStep_length:
  "length h \<le> length (fst (defaultPropertyStep d p (h, ws)))"
  by (auto simp: defaultPropertyStep_def Let_def alloc_def length_setProp split: option.splits)

lemma defaultSlotStep_length:
  "length h \<le> length (fst (defaultSlotStep d p (h, ws)))"
  by (auto simp: defaultSlotStep_def alloc_def length_setProp)

lemma fold_defaultPropertyStep_length:
  "length (fst acc) \<le> length (fst (fold (defaultPropertyStep d) ps acc))"
proof (induction ps arbitrary: acc)
  case Nil
  show ?case by simp
next
  case (Cons p ps)
  obtain h ws where acc: "acc = (h, ws)" by (cases acc)
  have "length h \<le> length (fst (defaultPropertyStep d p (h, ws)))"
    by (rule defaultPropertyStep_length)
  also have "\<dots> \<le> length (fst (fold (defaultPropertyStep d) ps (defaultPropertyStep d p (h, ws))))"
    by (rule Cons.IH)
  finally show ?case by (simp add: acc)
qed

lemma fold_defaultSlotStep_length:
  "length (fst acc) \<le> length (fst (fold (defaultSlotStep d) ps acc))"
proof (induction ps arbitrary: acc)
  case Nil
  show ?case by simp
next
  case (Cons p ps)
  obtain h ws where acc: "acc = (h, ws)" by (cases acc)
  have "length h \<le> length (fst (defaultSlotStep d p (h, ws)))"
    by (rule defaultSlotStep_length)
  also have "\<dots> \<le> length (fst (fold (defaultSlotStep d) ps (defaultSlotStep d p (h, ws))))"
    by (rule Cons.IH)
  finally show ?case by (simp add: acc)
qed

lemma getDefaultState_result:
  assumes "cacheValid w c" and "getDefaultState c w = (d, w1)"
  shows "d < length (heap w1) \<and> defaultStateRef (classes w1 c) = Some d
       \<and> nodes w1 = nodes w \<and> length (heap w) \<le> length (heap w1)"
proof (cases "defaultStateRef (classes w c)")
  case (Some d0)
  then show ?thesis using assms by (simp add: getDefaultState_def cacheValid_def)
next
  case None
  define acc1 where "acc1 = fold (defaultPropertyStep (length (heap w))) (properties (meta (classes w c)))
                          (heap w @ [Obj []], warnings w)"
  define acc2 where "acc2 = fold (defaultSlotStep (length (heap w))) (slots (meta (classes w c))) acc1"
  have l1: "length (heap w) + 1 \<le> length (fst acc1)"
    using fold_defaultPropertyStep_length [of "(heap w @ [Obj []], warnings w)" "length (heap w)"
        "properties (meta (classes w c))"]
    by (simp add: acc1_def)
  have l2: "length (fst acc1) \<le> length (fst acc2)"
    unfolding acc2_def by (rule fold_defaultSlotStep_length)
  have r: "d = length (heap w) \<and> heap w1 = fst acc2 \<and> nodes w1 = nodes w
      \<and> defaultStateRef (classes w1 c) = Some d"
    using assms None
    by (auto simp: getDefaultState_def alloc_def acc1_def acc2_def split: prod.splits)
  show ?thesis using r l1 l2 by simp
qed

lemma getDefaultState_cached:
  "defaultStateRef (classes w c) = Some d \<Longrightarrow> getDefaultState c w = (d, w)"
  by (simp add: getDefaultState_def)

lemma initializeState_result:
  assumes "cacheValid w (klass (nodes w n))"
  shows "\<exists>d. defaultStateRef (classes (initializeState n w) (klass (nodes w n))) = Some d
          \<and> d < stateRef (nodes (initializeState n w) n)
          \<and> stateRef (nodes (initializeState n w) n) < length (heap (initializeState n w))
          \<and> length (heap w) \<le> stateRef (nodes (initializeState n w) n)
          \<and> ownEntries (heap (initializeState n w)) (stateRef (nodes (initializeState n w) n))
              = ownEntries (heap (initializeState n w)) d
          \<and> (\<forall>m. m \<noteq> n \<longrightarrow> nodes (initializeState n w) m = nodes w m)
          \<and> klass (nodes (initializeState n w) n) = klass (nodes w n)
          \<and> (\<forall>a. a < length (heap w) \<longrightarrow> defaultStateRef (classes w (klass (nodes w n))) \<noteq> None
                 \<longrightarrow> heap (initializeState n w) ! a = heap w ! a)"
proof -
  obtain d w1 where g: "getDefaultState (klass (nodes w n)) w = (d, w1)"
    by (cases "getDefaultState (klass (nodes w n)) w")
  note r = getDefaultState_result [OF assms g]
  have i: "initializeState n w = w1\<lparr>heap := heap w1 @ [Obj (ownEntries (heap w1) d)],
               nodes := (nodes w1)(n := (nodes w1 n)\<lparr>stateRef := length (heap w1)\<rparr>)\<rparr>"
    by (simp add: initializeState_def g alloc_def)
  have c: "defaultStateRef (classes w (klass (nodes w n))) \<noteq> None \<Longrightarrow> w1 = w"
    using g by (auto simp: getDefaultState_def)
  show ?thesis
    using r c by (intro exI [of _ d]) (auto simp: i ownEntries_def nth_append)
qed

lemma initializeState_cached:
  assumes "defaultStateRef (classes w (klass (nodes w n))) = Some d"
  shows "initializeState n w = w\<lparr>heap := heap w @ [Obj (ownEntries (heap w) d)],
            nodes := (nodes w)(n := (nodes w n)\<lparr>stateRef := length (heap w)\<rparr>)\<rparr>"
  using assms by (simp add: initializeState_def getDefaultState_def alloc_def)

lemma ownEntries_setProp_other: "b \<noteq> a \<Longrightarrow> ownEntries (setProp h a k v) b = ownEntries h b"
  by (auto simp: ownEntries_def setProp_def split: hobj.splits)

lemma ownEntries_append: "a < length h \<Longrightarrow> ownEntries (h @ hs) a = ownEntries h a"
  by (simp add: ownEntries_def nth_append)

lemma ownEntries_new: "ownEntries (h @ [Obj kvs]) (length h) = kvs"
  by (simp add: ownEntries_def)

lemma setProperty_other_object:
  "b \<noteq> stateRef (nodes w n) \<Longrightarrow> ownEntries (heap (snd (setProperty E n pn val w))) b = ownEntries (heap w) b"
  using heap_setProperty [of E n pn val w] by (auto simp: ownEntries_setProp_other)

text \<open>
  C6, as the code has it. Two instances of a class, constructed one after the other, each
  get a state object of their own, at an address that is neither the snapshot's nor the
  other instance's, holding the entries of the snapshot; a property write on one instance
  changes neither the entries of the snapshot nor those of the other instance. (The
  entries are copied as they are: what the theorem says of arrays and objects among them
  is that the references are equal.)
\<close>

theorem state_is_shallow_copy:
  assumes valid: "cacheValid w (klass (nodes w n1))"
    and same: "klass (nodes w n2) = klass (nodes w n1)"
    and ne: "n1 \<noteq> n2"
  shows "\<exists>d. defaultStateRef (classes (initializeState n2 (initializeState n1 w)) (klass (nodes w n1))) = Some d
     \<and> stateRef (nodes (initializeState n2 (initializeState n1 w)) n1) \<noteq> d
     \<and> stateRef (nodes (initializeState n2 (initializeState n1 w)) n2) \<noteq> d
     \<and> stateRef (nodes (initializeState n2 (initializeState n1 w)) n1)
         \<noteq> stateRef (nodes (initializeState n2 (initializeState n1 w)) n2)
     \<and> ownEntries (heap (initializeState n2 (initializeState n1 w)))
          (stateRef (nodes (initializeState n2 (initializeState n1 w)) n1))
         = ownEntries (heap (initializeState n2 (initializeState n1 w))) d
     \<and> ownEntries (heap (initializeState n2 (initializeState n1 w)))
          (stateRef (nodes (initializeState n2 (initializeState n1 w)) n2))
         = ownEntries (heap (initializeState n2 (initializeState n1 w))) d
     \<and> (\<forall>E pn val.
           ownEntries (heap (snd (setProperty E n1 pn val (initializeState n2 (initializeState n1 w))))) d
             = ownEntries (heap (initializeState n2 (initializeState n1 w))) d
         \<and> ownEntries (heap (snd (setProperty E n1 pn val (initializeState n2 (initializeState n1 w)))))
               (stateRef (nodes (initializeState n2 (initializeState n1 w)) n2))
             = ownEntries (heap (initializeState n2 (initializeState n1 w)))
                 (stateRef (nodes (initializeState n2 (initializeState n1 w)) n2)))"
proof -
  define c where "c = klass (nodes w n1)"
  define w1 where "w1 = initializeState n1 w"
  define w2 where "w2 = initializeState n2 w1"
  obtain d where d: "defaultStateRef (classes w1 c) = Some d"
    and d_lt: "d < stateRef (nodes w1 n1)"
    and s1_lt: "stateRef (nodes w1 n1) < length (heap w1)"
    and e1: "ownEntries (heap w1) (stateRef (nodes w1 n1)) = ownEntries (heap w1) d"
    and others: "\<forall>m. m \<noteq> n1 \<longrightarrow> nodes w1 m = nodes w m"
    using initializeState_result [OF valid] unfolding w1_def c_def by blast
  have k2: "klass (nodes w1 n2) = c" using others ne same by (simp add: c_def)
  have w2: "w2 = w1\<lparr>heap := heap w1 @ [Obj (ownEntries (heap w1) d)],
            nodes := (nodes w1)(n2 := (nodes w1 n2)\<lparr>stateRef := length (heap w1)\<rparr>)\<rparr>"
    unfolding w2_def using d k2 by (intro initializeState_cached) simp
  have a: "defaultStateRef (classes w2 c) = Some d" by (simp add: w2 d)
  have s1: "stateRef (nodes w2 n1) = stateRef (nodes w1 n1)" using ne by (simp add: w2)
  have s2: "stateRef (nodes w2 n2) = length (heap w1)" by (simp add: w2)
  have hp: "heap w2 = heap w1 @ [Obj (ownEntries (heap w1) d)]" by (simp add: w2)
  have d_lt': "d < length (heap w1)" using d_lt s1_lt by simp
  have b1: "stateRef (nodes w2 n1) \<noteq> d" using d_lt by (simp add: s1)
  have b2: "stateRef (nodes w2 n2) \<noteq> d" using d_lt' by (simp add: s2)
  have b3: "stateRef (nodes w2 n1) \<noteq> stateRef (nodes w2 n2)" using s1_lt by (simp add: s1 s2)
  have c1: "ownEntries (heap w2) (stateRef (nodes w2 n1)) = ownEntries (heap w2) d"
    using e1 s1_lt d_lt' by (simp add: s1 hp ownEntries_append)
  have c2: "ownEntries (heap w2) (stateRef (nodes w2 n2)) = ownEntries (heap w2) d"
    using d_lt' by (simp add: s2 hp ownEntries_append ownEntries_new)
  have f: "\<forall>E pn val.
           ownEntries (heap (snd (setProperty E n1 pn val w2))) d = ownEntries (heap w2) d
         \<and> ownEntries (heap (snd (setProperty E n1 pn val w2))) (stateRef (nodes w2 n2))
             = ownEntries (heap w2) (stateRef (nodes w2 n2))"
    using b1 b3 by (simp add: setProperty_other_object)
  show ?thesis
    using a b1 b2 b3 c1 c2 f unfolding w2_def w1_def c_def by blast
qed

lemma twoInstances_facts:
  "defaultStateRef (classes twoInstances (klass (nodes exampleWorld 2))) = Some 6
   \<and> stateRef (nodes twoInstances 2) = 9 \<and> stateRef (nodes twoInstances 3) = 10
   \<and> ownEntries (heap twoInstances) 6
        = [(''text'', JStr []), (''checked'', JBool False), (''content'', Ref 7), (''x'', Ref 8)]"
  by code_simp

theorem state_is_shallow_copy_witness:
  "stateRef (nodes twoInstances 2) = 9 \<and> stateRef (nodes twoInstances 3) = 10
   \<and> ownEntries (heap twoInstances) 9
        = [(''text'', JStr []), (''checked'', JBool False), (''content'', Ref 7), (''x'', Ref 8)]
   \<and> ownEntries (heap twoInstances) 10
        = [(''text'', JStr []), (''checked'', JBool False), (''content'', Ref 7), (''x'', Ref 8)]
   \<and> ownEntries (heap (snd (setProperty exampleEnv 2 ''text'' (JStr ''z'') twoInstances))) 6
        = [(''text'', JStr []), (''checked'', JBool False), (''content'', Ref 7), (''x'', Ref 8)]
   \<and> ownEntries (heap (snd (setProperty exampleEnv 2 ''text'' (JStr ''z'') twoInstances))) 10
        = [(''text'', JStr []), (''checked'', JBool False), (''content'', Ref 7), (''x'', Ref 8)]"
proof -
  have valid: "cacheValid exampleWorld (klass (nodes exampleWorld 2))"
    by (simp add: cacheValid_def exampleWorld_def)
  have same: "klass (nodes exampleWorld 3) = klass (nodes exampleWorld 2)"
    by (simp add: exampleWorld_def exampleNode_def)
  have ne: "(2::nat) \<noteq> 3" by simp
  from state_is_shallow_copy [OF valid same ne]
  obtain d where d: "defaultStateRef (classes twoInstances (klass (nodes exampleWorld 2))) = Some d"
    and e1: "ownEntries (heap twoInstances) (stateRef (nodes twoInstances 2)) = ownEntries (heap twoInstances) d"
    and e2: "ownEntries (heap twoInstances) (stateRef (nodes twoInstances 3)) = ownEntries (heap twoInstances) d"
    and f: "\<forall>E pn val.
           ownEntries (heap (snd (setProperty E 2 pn val twoInstances))) d = ownEntries (heap twoInstances) d
         \<and> ownEntries (heap (snd (setProperty E 2 pn val twoInstances))) (stateRef (nodes twoInstances 3))
             = ownEntries (heap twoInstances) (stateRef (nodes twoInstances 3))"
    unfolding twoInstances_def by blast
  have d6: "d = 6" using d twoInstances_facts by simp
  from e1 e2 f twoInstances_facts show ?thesis unfolding d6 by simp
qed

text \<open>
  C6 as stated fails: the backing array of the slot \<open>x\<close> is one array, shared by the
  snapshot and both instances, and an element pushed to it through one instance shows in
  the other instance and in the snapshot.
\<close>

theorem default_arrays_are_shared:
  "getProp (heap twoInstances) (stateRef (nodes twoInstances 2)) ''x'' = Ref 8
   \<and> getProp (heap twoInstances) (stateRef (nodes twoInstances 3)) ''x'' = Ref 8
   \<and> defaultStateRef (classes twoInstances 0) = Some 6
   \<and> getProp (heap twoInstances) 6 ''x'' = Ref 8
   \<and> asArray (heap twoInstances) (Ref 8) = []
   \<and> asArray (arrayPush 8 (NodeRef 4) (heap twoInstances))
        (getProp (arrayPush 8 (NodeRef 4) (heap twoInstances)) (stateRef (nodes twoInstances 3)) ''x'')
       = [NodeRef 4]
   \<and> asArray (arrayPush 8 (NodeRef 4) (heap twoInstances))
        (getProp (arrayPush 8 (NodeRef 4) (heap twoInstances)) 6 ''x'')
       = [NodeRef 4]"
  by code_simp

end
